theory Spec2Isabelle
  imports Main "HOL-Library.Word" "HOL-Library.Char_ord" "HOL-Library.List_Lexorder"
    "HOL-Library.Multiset"
begin

section \<open>Data model\<close>

text \<open>
  The objects of \<^verbatim>\<open>pkg/controller/controller.go\<close>, with the fields the controller reads
  or writes. Go's \<^verbatim>\<open>int32\<close> is a 32-bit word compared as a signed value; a Go map is a
  partial function (a nil map reads like an empty one); a pointer field that may be nil
  is an option.
\<close>

type_synonym int32 = "32 word"

record IsolationGroup =
  ig_Name :: string
  ig_NumInstances :: int32

datatype ConditionStatus = ConditionTrue | ConditionFalse | ConditionUnknown

record ClusterCondition =
  cond_Type :: string
  cond_Status :: ConditionStatus

record M3DBCluster =
  cl_Name :: string
  cl_Namespace :: string
  cl_UID :: string
  cl_Labels :: "string \<rightharpoonup> string"
  cl_Generation :: "64 word"
  cl_ResourceVersion :: string
  cl_IsolationGroups :: "IsolationGroup list"
  cl_Namespaces :: "string list"
  cl_Conditions :: "ClusterCondition list"

record OwnerReference =
  ref_Kind :: string
  ref_Name :: string
  ref_UID :: string
  ref_Controller :: "bool option"

record StatefulSet =
  sts_Name :: string
  sts_Namespace :: string
  sts_ResourceVersion :: string
  sts_Labels :: "string \<rightharpoonup> string"
  sts_OwnerReferences :: "OwnerReference list"
  sts_Replicas :: "int32 option"
  sts_ReadyReplicas :: int32

record Pod =
  pod_Name :: string
  pod_Namespace :: string
  pod_Labels :: "string \<rightharpoonup> string"
  pod_Annotations :: "string \<rightharpoonup> string"

record PodIdentity =
  id_Name :: string
  id_UID :: string
  id_NodeName :: string
  id_NodeExternalID :: string
  id_NodeProviderID :: string

record Instance =
  inst_ID :: string
  inst_IsolationGroup :: string
  inst_IsAvailable :: bool

type_synonym Placement = "Instance list"

subsection \<open>Errors\<close>

text \<open>
  One constructor for each error value the controller builds, named after its message;
  \<open>External\<close> is an error handed back by a collaborator. A function whose Go result
  is \<^verbatim>\<open>error\<close> returns \<open>error option\<close> (\<open>None\<close> is nil); one whose result is
  \<^verbatim>\<open>(T, error)\<close> returns \<open>error + T\<close>.
\<close>

datatype error =
    External string
  | ErrOrphanedPod
  | ErrReenqueue
  | ErrListingPods error
  | ErrFetchingActivePlacement error
  | ErrNoIsolationGroupLabel string
  | ErrZoneNotFound string "IsolationGroup list"
  | ErrUnsetSpecReplica string
  | ErrUpdatingStatefulSet string error
  | ErrFetchingPlacement error
  | ErrReconcilingBootstrapStatus error

subsection \<open>Observable calls\<close>

text \<open>
  A handler's run is the list of calls it makes on its collaborators, in order, and what
  it returns. Log lines carry their zap fields.
\<close>

datatype level = Debug | Info | Warn | Error

datatype field =
    ZapString string string
  | ZapStrings string "string list"
  | ZapInt string nat
  | ZapInt32 string int32
  | ZapInt64 string "64 word"
  | ZapError error
  | ZapAny string PodIdentity

datatype reason =
  ReasonUnknown | ReasonFailedToUpdate | ReasonLongerThanUsual | ReasonSuccessfulUpdate

datatype call =
    Log level string "field list"
  | HandleError string
  | CounterInc string
  | WarningEvent reason string "string list"
  | NormalEvent reason string
  | Call_ensureServices
  | StatefulSets_List
  | StatefulSets_Create StatefulSet
  | StatefulSets_Update StatefulSet
  | Namespace_List
  | Namespace_Create string
  | Namespace_Delete string
  | Call_validatePlacementWithStatus
  | Pods_List
  | Placement_Get
  | Call_expandPlacementForSet StatefulSet IsolationGroup
  | Call_shrinkPlacementForSet StatefulSet
  | Call_reconcileBootstrappingStatus
  | Clusters_Get string string
  | Call_Identity
  | Call_IdentityJSON
  | Pods_Update Pod
  | AddRateLimited string

text \<open>
  The controller with its collaborators. What a collaborator answers is a field of the
  record; the label and annotation keys are constants of packages outside
  \<^verbatim>\<open>controller.go\<close> and are fields too. The stateful-set lister and the placement
  client are asked twice in a tick of the cluster handler, so their answers take the
  ordinal of the call (0 for the first). An answer with a nil error carries its value.
  The update of a stateful set answers \<open>None\<close> when it succeeds and \<open>Some (r, err)\<close>
  when it fails with the error \<open>err\<close>, \<open>r\<close> being the object it hands back with the
  error (\<open>None\<close> for a nil pointer): line 510 reads that object.
  \<open>GenerateStatefulSet_error\<close> is the error of \<^verbatim>\<open>k8sops.GenerateStatefulSet\<close>, if any.
\<close>

record Controller =
  labels_Cluster :: string
  labels_IsolationGroup :: string
  AnnotationKeyPodIdentity :: string
  clusterLister_Get :: "string \<Rightarrow> string \<Rightarrow> error + M3DBCluster"
  podIDProvider_Identity :: "Pod \<Rightarrow> M3DBCluster \<Rightarrow> error + PodIdentity"
  IdentityJSON :: "PodIdentity \<Rightarrow> error + string"
  kubeClient_Pods_Update :: "Pod \<Rightarrow> error option"
  ensureServices :: "M3DBCluster \<Rightarrow> error option"
  statefulSetLister_List :: "nat \<Rightarrow> error + StatefulSet list"
  GenerateStatefulSet_error :: "M3DBCluster \<Rightarrow> string \<Rightarrow> int32 \<Rightarrow> error option"
  kubeClient_StatefulSets_Create :: "StatefulSet \<Rightarrow> error option"
  kubeClient_StatefulSets_Update :: "StatefulSet \<Rightarrow> (StatefulSet option \<times> error) option"
  namespaceClient_List :: "error + string list"
  namespaceClient_Create :: "string \<Rightarrow> error option"
  namespaceClient_Delete :: "string \<Rightarrow> error option"
  validatePlacementWithStatus :: "M3DBCluster \<Rightarrow> error + bool"
  podLister_List :: "error + Pod list"
  placementClient_Get :: "nat \<Rightarrow> error + Placement"
  expandPlacementForSet ::
    "M3DBCluster \<Rightarrow> StatefulSet \<Rightarrow> IsolationGroup \<Rightarrow> Placement \<Rightarrow> error option"
  shrinkPlacementForSet :: "M3DBCluster \<Rightarrow> StatefulSet \<Rightarrow> error option"
  reconcileBootstrappingStatus :: "M3DBCluster \<Rightarrow> Placement \<Rightarrow> error + M3DBCluster"

text \<open>\<open>emit cs r\<close>: the calls \<open>cs\<close> happen, then the run \<open>r\<close>.\<close>

definition emit :: "call list \<Rightarrow> call list \<times> 'r \<Rightarrow> call list \<times> 'r" where
  "emit cs r = (cs @ fst r, snd r)"

section \<open>The pod handler\<close>

text \<open>\<^verbatim>\<open>getClusterValue\<close>, lines 739-746.\<close>

definition getClusterValue :: "Controller \<Rightarrow> Pod \<Rightarrow> string \<times> bool" where
  "getClusterValue c pod =
     (case pod_Labels pod (labels_Cluster c) of
        None \<Rightarrow> ('''', False)
      | Some cluster \<Rightarrow> (cluster, True))"

text \<open>\<^verbatim>\<open>getParentCluster\<close>, lines 748-760.\<close>

definition getParentCluster :: "Controller \<Rightarrow> Pod \<Rightarrow> call list \<times> (error + M3DBCluster)" where
  "getParentCluster c pod =
     (let (clusterName, found) = getClusterValue c pod in
      if \<not> found then ([], Inl ErrOrphanedPod)
      else ([Clusters_Get (pod_Namespace pod) clusterName],
            clusterLister_Get c (pod_Namespace pod) clusterName))"

text \<open>
  \<^verbatim>\<open>handlePodUpdate\<close>, lines 681-737. The logger of the pod carries the field
  \<^verbatim>\<open>pod\<close>; the deep copy is the identity on values.
\<close>

definition handlePodUpdate :: "Controller \<Rightarrow> Pod \<Rightarrow> call list \<times> error option" where
  "handlePodUpdate c pod =
     (if \<not> snd (getClusterValue c pod) then ([], None)
      else
        let podField = ZapString ''pod'' (pod_Name pod) in
        emit [Log Info ''processing pod'' [podField]]
         (case getParentCluster c pod of
            (t, Inl err) \<Rightarrow>
              (t @ [Log Error ''error getting parent cluster'' [podField, ZapError err]], Some err)
          | (t, Inr cluster) \<Rightarrow>
              emit (t @ [Call_Identity])
               (case podIDProvider_Identity c pod cluster of
                  Inl err \<Rightarrow> ([Log Error ''error getting pod ID'' [podField, ZapError err]], Some err)
                | Inr ident \<Rightarrow>
                    emit [Call_IdentityJSON]
                     (case IdentityJSON c ident of
                        Inl err \<Rightarrow>
                          ([Log Error ''error marshaling pod ID'' [podField, ZapError err]], Some err)
                      | Inr idStr \<Rightarrow>
                          emit [Log Info ''pod ID'' [podField, ZapAny ''id'' ident]]
                           (case pod_Annotations pod (AnnotationKeyPodIdentity c) of
                              Some currentID \<Rightarrow>
                                (if currentID \<noteq> idStr
                                 then [Log Warn ''pod ID mismatch''
                                         [podField, ZapString ''currentID'' currentID,
                                          ZapString ''newID'' idStr]]
                                 else [], None)
                            | None \<Rightarrow>
                                (let pod' = pod\<lparr>pod_Annotations :=
                                       (pod_Annotations pod)(AnnotationKeyPodIdentity c \<mapsto> idStr)\<rparr>
                                 in emit [Pods_Update pod']
                                     (case kubeClient_Pods_Update c pod' of
                                        Some err \<Rightarrow>
                                          ([Log Error ''error updating pod annotation''
                                              [podField, ZapError err]], Some err)
                                      | None \<Rightarrow> ([], None))))))))"

section \<open>The stateful-set informer\<close>

text \<open>
  What the informer hands to a handler: an object with metadata (here a stateful set),
  a tombstone \<^verbatim>\<open>cache.DeletedFinalStateUnknown\<close> around an object or around something
  that is none, or a value of another type.
\<close>

datatype obj =
    Object StatefulSet
  | Tombstone "StatefulSet option"
  | Invalid

text \<open>
  \<^verbatim>\<open>metav1.GetControllerOf\<close> of the platform library: the first owner reference whose
  controller flag is set and true.
\<close>

definition GetControllerOf :: "StatefulSet \<Rightarrow> OwnerReference option" where
  "GetControllerOf object = find (\<lambda>r. ref_Controller r = Some True) (sts_OwnerReferences object)"

text \<open>
  \<^verbatim>\<open>cache.MetaNamespaceKeyFunc\<close> of the platform library on an object with metadata:
  \<^verbatim>\<open>namespace/name\<close>, or the name alone when the namespace is empty.
\<close>

definition MetaNamespaceKey :: "string \<Rightarrow> string \<Rightarrow> string" where
  "MetaNamespaceKey namespace name = (if namespace = [] then name else namespace @ ''/'' @ name)"

text \<open>\<^verbatim>\<open>enqueueCluster\<close>, lines 251-260, on a cluster object.\<close>

definition enqueueCluster :: "M3DBCluster \<Rightarrow> call list" where
  "enqueueCluster cluster =
     [AddRateLimited (MetaNamespaceKey (cl_Namespace cluster) (cl_Name cluster)),
      CounterInc ''enqueued_event'']"

text \<open>
  \<^verbatim>\<open>handleStatefulSetUpdate\<close>, lines 568-603: \<open>resolveOwner\<close> is its second half
  (lines 587-603), which runs on the decoded object.
\<close>

definition resolveOwner :: "Controller \<Rightarrow> StatefulSet \<Rightarrow> call list" where
  "resolveOwner c object =
     Log Info ''processing statefulset'' [ZapString ''name'' (sts_Name object)] #
     (case GetControllerOf object of
        None \<Rightarrow> []
      | Some owner \<Rightarrow>
          if ref_Kind owner \<noteq> ''m3dbcluster'' then []
          else
            Clusters_Get (sts_Namespace object) (ref_Name owner) #
            (case clusterLister_Get c (sts_Namespace object) (ref_Name owner) of
               Inl err \<Rightarrow>
                 [Log Info ''ignoring orphaned object''
                    [ZapString ''m3dbcluster'' (ref_Name owner),
                     ZapString ''statefulset'' (sts_Name object)]]
             | Inr cluster \<Rightarrow> enqueueCluster cluster))"

definition handleStatefulSetUpdate :: "Controller \<Rightarrow> obj \<Rightarrow> call list" where
  "handleStatefulSetUpdate c ob =
     (case ob of
        Object object \<Rightarrow> resolveOwner c object
      | Invalid \<Rightarrow> [HandleError ''error decoding object, invalid type'']
      | Tombstone None \<Rightarrow> [HandleError ''error decoding tombstone, invalid type'']
      | Tombstone (Some object) \<Rightarrow>
          Log Info ''recovered object from tombstone'' [ZapString ''name'' (sts_Name object)] #
          resolveOwner c object)"

text \<open>
  The handlers registered on the stateful-set informer in \<^verbatim>\<open>New\<close>, lines 191-206. The
  update handler asserts that both arguments are stateful sets, so it takes two.
\<close>

definition statefulSet_AddFunc :: "Controller \<Rightarrow> obj \<Rightarrow> call list" where
  "statefulSet_AddFunc c ob = handleStatefulSetUpdate c ob"

definition statefulSet_UpdateFunc :: "Controller \<Rightarrow> StatefulSet \<Rightarrow> StatefulSet \<Rightarrow> call list" where
  "statefulSet_UpdateFunc c oldSts newSts =
     (if sts_ResourceVersion newSts = sts_ResourceVersion oldSts then []
      else handleStatefulSetUpdate c (Object newSts))"

section \<open>The cluster handler\<close>

text \<open>
  How a tick of the cluster handler ends: it returns an error or nil, or the Go runtime
  panics, on a slice index out of range (index, length) or on a nil pointer dereference.
\<close>

datatype outcome = Return "error option" | Panic_IndexOutOfRange nat nat | Panic_NilDereference

definition returned :: "call list \<times> error option \<Rightarrow> call list \<times> outcome" where
  "returned r = (fst r, Return (snd r))"

text \<open>\<^verbatim>\<open>%d\<close> of a non-negative \<^verbatim>\<open>int\<close>.\<close>

fun itoa :: "nat \<Rightarrow> string" where
  "itoa n = (if n < 10 then [''0123456789'' ! n] else itoa (n div 10) @ [''0123456789'' ! (n mod 10)])"

declare itoa.simps [simp del]

text \<open>
  Modelled from the spec: the \<^verbatim>\<open>Less\<close> method of \<^verbatim>\<open>myspec.IsolationGroups\<close>, which
  \<^verbatim>\<open>sort.Sort\<close> uses at line 351, is declared outside \<^verbatim>\<open>controller.go\<close>. The spec
  (4.2, step 4): "Sort isolation groups by name". Strings compare byte by byte, as Go's
  do; names are unique (spec, 3), so the order of equal names is not modelled.
\<close>

definition sortGroups :: "IsolationGroup list \<Rightarrow> IsolationGroup list" where
  "sortGroups gs = sort_key ig_Name gs"

text \<open>
  Modelled from the spec: \<^verbatim>\<open>GetByName\<close> of \<^verbatim>\<open>myspec.IsolationGroups\<close>, used at line
  457, is declared outside \<^verbatim>\<open>controller.go\<close>. The spec (4.2, step 11) takes the desired
  size from the isolation group that the set's label names; the model returns the first
  group of that name.
\<close>

definition GetByName :: "IsolationGroup list \<Rightarrow> string \<Rightarrow> IsolationGroup option" where
  "GetByName gs zone = find (\<lambda>g. ig_Name g = zone) gs"

text \<open>
  Modelled from the spec: \<^verbatim>\<open>HasInitializedPlacement\<close> of the cluster status, used at
  line 400, is declared outside \<^verbatim>\<open>controller.go\<close>. The spec (4.2, step 9): "If the
  PlacementInitialized condition is not True".
\<close>

definition HasInitializedPlacement :: "M3DBCluster \<Rightarrow> bool" where
  "HasInitializedPlacement cluster =
     list_ex (\<lambda>cond. cond_Type cond = ''PlacementInitialized'' \<and> cond_Status cond = ConditionTrue)
       (cl_Conditions cluster)"

text \<open>
  Modelled from the spec: \<^verbatim>\<open>reconcileNamespaces\<close>, called at line 390, is declared
  outside \<^verbatim>\<open>controller.go\<close>. The spec (4.2, step 8): "Diff declared vs live namespaces
  via the admin client: create missing, delete extra"; (4.5): one admin request for each
  addition and each deletion. The first admin error ends it.
\<close>

fun createNamespaces :: "Controller \<Rightarrow> string list \<Rightarrow> call list \<times> error option" where
  "createNamespaces c [] = ([], None)"
| "createNamespaces c (n # ns) =
     emit [Namespace_Create n]
      (case namespaceClient_Create c n of
         Some err \<Rightarrow> ([], Some err)
       | None \<Rightarrow> createNamespaces c ns)"

fun deleteNamespaces :: "Controller \<Rightarrow> string list \<Rightarrow> call list \<times> error option" where
  "deleteNamespaces c [] = ([], None)"
| "deleteNamespaces c (n # ns) =
     emit [Namespace_Delete n]
      (case namespaceClient_Delete c n of
         Some err \<Rightarrow> ([], Some err)
       | None \<Rightarrow> deleteNamespaces c ns)"

definition reconcileNamespaces :: "Controller \<Rightarrow> M3DBCluster \<Rightarrow> call list \<times> error option" where
  "reconcileNamespaces c cluster =
     emit [Namespace_List]
      (case namespaceClient_List c of
         Inl err \<Rightarrow> ([], Some err)
       | Inr live \<Rightarrow>
           (case createNamespaces c (filter (\<lambda>n. n \<notin> set live) (cl_Namespaces cluster)) of
              (t, Some err) \<Rightarrow> (t, Some err)
            | (t, None) \<Rightarrow>
                emit t (deleteNamespaces c
                  (filter (\<lambda>n. n \<notin> set (cl_Namespaces cluster)) live))))"

text \<open>
  \<^verbatim>\<open>metav1.IsControlledBy\<close> of the platform library: the object's controller reference
  carries the owner's UID.
\<close>

definition IsControlledBy :: "StatefulSet \<Rightarrow> M3DBCluster \<Rightarrow> bool" where
  "IsControlledBy sts cluster =
     (case GetControllerOf sts of None \<Rightarrow> False | Some r \<Rightarrow> ref_UID r = cl_UID cluster)"

text \<open>
  \<^verbatim>\<open>getChildStatefulSets\<close>, lines 551-566; \<open>n\<close> is the ordinal of the call in the tick.
  The lister is asked for the cluster's namespace and labels; its answer is the
  collaborator's.
\<close>

definition getChildStatefulSets ::
    "Controller \<Rightarrow> nat \<Rightarrow> M3DBCluster \<Rightarrow> call list \<times> (error + StatefulSet list)" where
  "getChildStatefulSets c n cluster =
     emit [StatefulSets_List]
      (case statefulSetLister_List c n of
         Inl err \<Rightarrow> ([HandleError ''error listing statefulsets''], Inl err)
       | Inr statefulSets \<Rightarrow> ([], Inr (filter (\<lambda>sts. IsControlledBy sts cluster) statefulSets)))"

text \<open>\<^verbatim>\<open>instancesInIsoGroup\<close>, lines 539-547.\<close>

definition instancesInIsoGroup :: "Placement \<Rightarrow> string \<Rightarrow> Instance list" where
  "instancesInIsoGroup pl isoGroup = filter (\<lambda>inst. inst_IsolationGroup inst = isoGroup) pl"

text \<open>The condition of the readiness gate, line 361.\<close>

definition notReady :: "StatefulSet \<Rightarrow> bool" where
  "notReady sts =
     (case sts_Replicas sts of None \<Rightarrow> False | Some r \<Rightarrow> r \<noteq> sts_ReadyReplicas sts)"

text \<open>
  Modelled from the spec: \<^verbatim>\<open>k8sops.GenerateStatefulSet\<close>, called at line 375, is
  declared outside \<^verbatim>\<open>controller.go\<close>. The spec (4.2, step 7): the next group is
  created with "name \<^verbatim>\<open>"<cluster>-<index>"\<close>, index = current children count, using
  \<^verbatim>\<open>isoGroups[index].name\<close> and \<^verbatim>\<open>numInstances\<close>", the isolation groups being sorted
  by name "for stable numbering" (step 4); (3): a stateful group is "owned by exactly one
  ClusterSpec via a controller-owner reference; labeled with \<^verbatim>\<open>isolationGroup = g.name\<close>",
  with a declared replica count. The helper is handed the cluster, the group's name and
  its size, so the index it numbers the set by is the place of that name among the
  cluster's sorted groups (\<open>groupIndex\<close>). Whether the helper fails is the
  collaborator's answer; a new set has no ready replica.
\<close>

definition groupIndex :: "IsolationGroup list \<Rightarrow> string \<Rightarrow> nat" where
  "groupIndex isoGroups name = length (takeWhile (\<lambda>g. ig_Name g \<noteq> name) isoGroups)"

definition GenerateStatefulSet ::
    "Controller \<Rightarrow> M3DBCluster \<Rightarrow> string \<Rightarrow> int32 \<Rightarrow> error + StatefulSet" where
  "GenerateStatefulSet c cluster isolationGroupName instanceAmount =
     (case GenerateStatefulSet_error c cluster isolationGroupName instanceAmount of
        Some err \<Rightarrow> Inl err
      | None \<Rightarrow>
          Inr \<lparr>sts_Name =
                 cl_Name cluster @ ''-'' @
                 itoa (groupIndex (sortGroups (cl_IsolationGroups cluster)) isolationGroupName),
               sts_Namespace = cl_Namespace cluster,
               sts_ResourceVersion = [],
               sts_Labels = [labels_IsolationGroup c \<mapsto> isolationGroupName],
               sts_OwnerReferences =
                 [\<lparr>ref_Kind = ''m3dbcluster'', ref_Name = cl_Name cluster,
                   ref_UID = cl_UID cluster, ref_Controller = Some True\<rparr>],
               sts_Replicas = Some instanceAmount,
               sts_ReadyReplicas = 0\<rparr>)"

text \<open>
  Group creation, lines 370-388. The name of line 374 goes to the log line; the object
  is the one \<^verbatim>\<open>k8sops.GenerateStatefulSet\<close> builds. Line 382 logs the error's text as
  the message.
\<close>

definition createStatefulSet ::
    "Controller \<Rightarrow> M3DBCluster \<Rightarrow> IsolationGroup list \<Rightarrow> StatefulSet list \<Rightarrow> call list \<times> outcome" where
  "createStatefulSet c cluster isoGroups childrenSets =
     (let nextID = length childrenSets;
          name = cl_Name cluster @ ''-'' @ itoa nextID
      in if length isoGroups \<le> nextID then ([], Panic_IndexOutOfRange nextID (length isoGroups))
         else
           (case GenerateStatefulSet c cluster (ig_Name (isoGroups ! nextID))
                   (ig_NumInstances (isoGroups ! nextID)) of
              Inl err \<Rightarrow> ([], Return (Some err))
            | Inr sts \<Rightarrow>
                emit [StatefulSets_Create sts]
                 (case kubeClient_StatefulSets_Create c sts of
                    Some err \<Rightarrow> ([Log Error ''err.Error()'' [ZapError err]], Return (Some err))
                  | None \<Rightarrow>
                      ([Log Info ''created statefulset'' [ZapString ''name'' name]], Return None))))"

text \<open>
  The body of the loop over the children, lines 451-514: \<open>None\<close> is \<^verbatim>\<open>continue\<close>,
  \<open>Some r\<close> ends the tick; \<open>grp\<close> is the source's \<^verbatim>\<open>group\<close>. Line 508 assigns what
  the update returns to \<^verbatim>\<open>set\<close> and line 510 reads \<^verbatim>\<open>set.Name\<close> for the message:
  when the update fails and hands back a nil pointer, the read panics.
\<close>

definition scaleSet ::
    "Controller \<Rightarrow> M3DBCluster \<Rightarrow> IsolationGroup list \<Rightarrow> Placement \<Rightarrow> StatefulSet
      \<Rightarrow> (call list \<times> outcome) option" where
  "scaleSet c cluster isoGroups placement sts =
     (case sts_Labels sts (labels_IsolationGroup c) of
        None \<Rightarrow> Some ([], Return (Some (ErrNoIsolationGroupLabel (sts_Name sts))))
      | Some zone \<Rightarrow>
     (case GetByName isoGroups zone of
        None \<Rightarrow> Some ([], Return (Some (ErrZoneNotFound zone isoGroups)))
      | Some grp \<Rightarrow>
     (case sts_Replicas sts of
        None \<Rightarrow> Some ([], Return (Some (ErrUnsetSpecReplica (sts_Name sts))))
      | Some current \<Rightarrow>
          let desired = ig_NumInstances grp;
              inPlacement = (of_nat (length (instancesInIsoGroup placement (ig_Name grp))) :: int32);
              setFields = [ZapString ''statefulSet'' (sts_Name sts), ZapInt32 ''inPlacement'' inPlacement,
                           ZapInt32 ''current'' current, ZapInt32 ''desired'' desired]
          in if desired = current \<and> current = inPlacement then None
             else if desired = current \<and> inPlacement <s current then
               Some ([Log Info ''expanding placement for set'' setFields,
                      Call_expandPlacementForSet sts grp],
                     Return (expandPlacementForSet c cluster sts grp placement))
             else if desired <s inPlacement then
               Some ([Log Info ''remove instance from placement for set'' setFields,
                      Call_shrinkPlacementForSet sts],
                     Return (shrinkPlacementForSet c cluster sts))
             else
               let newCount = (if current <s desired then current + 1 else current - 1);
                   sts' = sts\<lparr>sts_Replicas := Some newCount\<rparr>
               in Some ([Log Info ''resizing set, desired != current''
                           (setFields @ [ZapInt32 ''newSize'' newCount]),
                         StatefulSets_Update sts'],
                        (case kubeClient_StatefulSets_Update c sts' of
                           None \<Rightarrow> Return None
                         | Some (None, err) \<Rightarrow> Panic_NilDereference
                         | Some (Some returned_set, err) \<Rightarrow>
                             Return (Some (ErrUpdatingStatefulSet (sts_Name returned_set) err)))))))"

fun scaleSets ::
    "Controller \<Rightarrow> M3DBCluster \<Rightarrow> IsolationGroup list \<Rightarrow> Placement \<Rightarrow> StatefulSet list
      \<Rightarrow> (call list \<times> outcome) option" where
  "scaleSets c cluster isoGroups placement [] = None"
| "scaleSets c cluster isoGroups placement (sts # rest) =
     (case scaleSet c cluster isoGroups placement sts of
        Some r \<Rightarrow> Some r
      | None \<Rightarrow> scaleSets c cluster isoGroups placement rest)"

text \<open>After the loop, lines 516-537.\<close>

definition nothingToDo ::
    "Controller \<Rightarrow> M3DBCluster \<Rightarrow> IsolationGroup list \<Rightarrow> StatefulSet list
      \<Rightarrow> call list \<times> error option" where
  "nothingToDo c cluster isoGroups childrenSets =
     emit [Placement_Get]
      (case placementClient_Get c 1 of
         Inl err \<Rightarrow> ([], Some (ErrFetchingPlacement err))
       | Inr placement \<Rightarrow>
           emit [Call_reconcileBootstrappingStatus]
            (case reconcileBootstrappingStatus c cluster placement of
               Inl err \<Rightarrow> ([], Some (ErrReconcilingBootstrapStatus err))
             | Inr cluster' \<Rightarrow>
                 ([Log Info ''nothing to do''
                     [ZapInt ''childrensets'' (length childrenSets), ZapInt ''zones'' (length isoGroups),
                      ZapInt64 ''generation'' (cl_Generation cluster'),
                      ZapString ''rv'' (cl_ResourceVersion cluster')],
                   NormalEvent ReasonSuccessfulUpdate ''cluster updated and synced''], None)))"

text \<open>Placement initialisation, lines 400-411.\<close>

definition initPlacement :: "Controller \<Rightarrow> M3DBCluster \<Rightarrow> call list \<times> error option" where
  "initPlacement c cluster =
     (if \<not> HasInitializedPlacement cluster then
        emit [Call_validatePlacementWithStatus]
         (case validatePlacementWithStatus c cluster of
            Inl err \<Rightarrow> ([], Some err)
          | Inr updated \<Rightarrow>
              if updated then
                ([WarningEvent ReasonFailedToUpdate ''re-enqueing cluster due to API update'' []],
                 Some ErrReenqueue)
              else ([], None))
      else ([], None))"

text \<open>From the pod listing to the end of the loop, lines 413-514, then \<open>nothingToDo\<close>.\<close>

definition checkPlacement ::
    "Controller \<Rightarrow> M3DBCluster \<Rightarrow> IsolationGroup list \<Rightarrow> call list \<times> outcome" where
  "checkPlacement c cluster isoGroups =
     emit [Pods_List]
      (case podLister_List c of
         Inl err \<Rightarrow> ([], Return (Some (ErrListingPods err)))
       | Inr pods \<Rightarrow>
     emit [Placement_Get]
      (case placementClient_Get c 0 of
         Inl err \<Rightarrow> ([], Return (Some (ErrFetchingActivePlacement err)))
       | Inr placement \<Rightarrow>
     emit [Log Info ''found placement''
             [ZapInt ''currentPods'' (length pods), ZapInt ''placementInsts'' (length placement)]]
      (let unavailInsts = map inst_ID (filter (\<lambda>inst. \<not> inst_IsAvailable inst) placement)
       in if unavailInsts \<noteq> [] then
            ([Log Warn ''waiting for instances to be available'' [ZapStrings ''instances'' unavailInsts],
              WarningEvent ReasonLongerThanUsual ''current unavailable instances: %d'' unavailInsts],
             Return None)
          else
            (case getChildStatefulSets c 1 cluster of
               (t, Inl err) \<Rightarrow> (t, Return (Some err))
             | (t, Inr childrenSets) \<Rightarrow>
                 emit t
                  (case scaleSets c cluster isoGroups placement childrenSets of
                     Some r \<Rightarrow> r
                   | None \<Rightarrow> returned (nothingToDo c cluster isoGroups childrenSets))))))"

text \<open>Namespaces and placement, lines 390-537.\<close>

definition reconcilePlacement ::
    "Controller \<Rightarrow> M3DBCluster \<Rightarrow> IsolationGroup list \<Rightarrow> call list \<times> outcome" where
  "reconcilePlacement c cluster isoGroups =
     (case reconcileNamespaces c cluster of
        (t, Some err) \<Rightarrow>
          (t @ [Log Error ''error reconciling namespaces'' [ZapError err]], Return (Some err))
      | (t, None) \<Rightarrow>
          emit (t @ (if cl_Namespaces cluster = [] then
                       [Log Warn ''cluster has no namespaces defined'' [ZapString ''cluster'' (cl_Name cluster)],
                        WarningEvent ReasonUnknown ''cluster %s has no namespaces'' [cl_Name cluster]]
                     else []))
           (case initPlacement c cluster of
              (t', Some err) \<Rightarrow> (t', Return (Some err))
            | (t', None) \<Rightarrow> emit t' (checkPlacement c cluster isoGroups)))"

text \<open>\<^verbatim>\<open>handleClusterUpdate\<close>, lines 330-537: one tick on a cluster.\<close>

definition handleClusterUpdate :: "Controller \<Rightarrow> M3DBCluster \<Rightarrow> call list \<times> outcome" where
  "handleClusterUpdate c cluster =
     emit [Call_ensureServices]
      (case ensureServices c cluster of
         Some err \<Rightarrow> ([], Return (Some err))
       | None \<Rightarrow>
           if cl_IsolationGroups cluster = [] then ([], Return None)
           else
             let isoGroups = sortGroups (cl_IsolationGroups cluster) in
             (case getChildStatefulSets c 0 cluster of
                (t, Inl err) \<Rightarrow> (t, Return (Some err))
              | (t, Inr childrenSets) \<Rightarrow>
                  emit t
                   (case find notReady childrenSets of
                      Some sts \<Rightarrow>
                        ([Log Info ''waiting for statefulset to be ready''
                            [ZapString ''name'' (sts_Name sts), ZapInt32 ''ready'' (sts_ReadyReplicas sts)]],
                         Return None)
                    | None \<Rightarrow>
                        if length childrenSets \<noteq> length isoGroups
                        then createStatefulSet c cluster isoGroups childrenSets
                        else reconcilePlacement c cluster isoGroups)))"
section \<open>Properties of a run\<close>

text \<open>The kinds of call the properties below count in a run.\<close>

fun is_group_write :: "call \<Rightarrow> bool" where
  "is_group_write (StatefulSets_Create sts) = True"
| "is_group_write (StatefulSets_Update sts) = True"
| "is_group_write _ = False"

fun is_group_create :: "call \<Rightarrow> bool" where
  "is_group_create (StatefulSets_Create sts) = True"
| "is_group_create _ = False"

fun is_namespace_write :: "call \<Rightarrow> bool" where
  "is_namespace_write (Namespace_Create n) = True"
| "is_namespace_write (Namespace_Delete n) = True"
| "is_namespace_write _ = False"

fun is_placement_change :: "call \<Rightarrow> bool" where
  "is_placement_change (Call_expandPlacementForSet sts grp) = True"
| "is_placement_change (Call_shrinkPlacementForSet sts) = True"
| "is_placement_change _ = False"

fun is_placement_init :: "call \<Rightarrow> bool" where
  "is_placement_init Call_validatePlacementWithStatus = True"
| "is_placement_init _ = False"

fun is_WarningEvent :: "call \<Rightarrow> bool" where
  "is_WarningEvent (WarningEvent r m args) = True"
| "is_WarningEvent _ = False"

fun is_Pods_Update :: "call \<Rightarrow> bool" where
  "is_Pods_Update (Pods_Update p) = True"
| "is_Pods_Update _ = False"

text \<open>
  A mutation of the cluster handler: a stateful set created or updated, a namespace
  created or deleted, the placement initialised, expanded or shrunk.
\<close>

definition is_mutation :: "call \<Rightarrow> bool" where
  "is_mutation x =
     (is_group_write x \<or> is_namespace_write x \<or> is_placement_init x \<or> is_placement_change x)"

text \<open>The step of a tick: a stateful set created or resized, the placement expanded or shrunk.\<close>

definition is_step :: "call \<Rightarrow> bool" where
  "is_step x = (is_group_write x \<or> is_placement_change x)"

text \<open>
  The tick gets to the loop over the children (line 451) with this placement and these
  children: every return before the loop is passed. In the order of the source: the
  services are ensured (339), there are isolation groups (343), the children are listed
  (353), none is waited for (361), there are as many children as groups (370), the
  namespaces are reconciled (390), the placement is initialised already or validated
  without an update (400-411), the pods are listed (417), the placement is fetched
  (423), every instance is available (438), and the children are listed again (446).
\<close>

definition reachesLoop ::
    "Controller \<Rightarrow> M3DBCluster \<Rightarrow> Placement \<Rightarrow> StatefulSet list \<Rightarrow> bool" where
  "reachesLoop c cluster placement childrenSets =
     (ensureServices c cluster = None \<and>
      cl_IsolationGroups cluster \<noteq> [] \<and>
      (case snd (getChildStatefulSets c 0 cluster) of
         Inl err \<Rightarrow> False
       | Inr first \<Rightarrow>
           find notReady first = None \<and> length first = length (cl_IsolationGroups cluster)) \<and>
      snd (reconcileNamespaces c cluster) = None \<and>
      snd (initPlacement c cluster) = None \<and>
      \<not> isl (podLister_List c) \<and>
      placementClient_Get c 0 = Inr placement \<and>
      filter (\<lambda>inst. \<not> inst_IsAvailable inst) placement = [] \<and>
      snd (getChildStatefulSets c 1 cluster) = Inr childrenSets)"

section \<open>Example worlds\<close>

text \<open>
  A cluster \<^verbatim>\<open>ns/cluster\<close> with the isolation groups \<open>b\<close> (one instance) and \<open>a\<close> (two
  instances), two namespaces and its placement initialised, and a controller whose
  collaborators all succeed and whose lister finds no stateful set. The other worlds
  change single answers of this one.
\<close>

definition ex_identity :: "Pod \<Rightarrow> PodIdentity" where
  "ex_identity pod =
     \<lparr>id_Name = pod_Name pod, id_UID = '''', id_NodeName = '''', id_NodeExternalID = '''',
      id_NodeProviderID = ''''\<rparr>"

definition ex_cluster :: M3DBCluster where
  "ex_cluster =
     \<lparr>cl_Name = ''cluster'', cl_Namespace = ''ns'', cl_UID = ''uid-1'', cl_Labels = Map.empty,
      cl_Generation = 1, cl_ResourceVersion = ''7'',
      cl_IsolationGroups =
        [\<lparr>ig_Name = ''b'', ig_NumInstances = 1\<rparr>, \<lparr>ig_Name = ''a'', ig_NumInstances = 2\<rparr>],
      cl_Namespaces = [''m'', ''n''],
      cl_Conditions = [\<lparr>cond_Type = ''PlacementInitialized'', cond_Status = ConditionTrue\<rparr>]\<rparr>"

definition ex_generated :: "M3DBCluster \<Rightarrow> string \<Rightarrow> int32 \<Rightarrow> StatefulSet" where
  "ex_generated cluster isoGroup n =
     \<lparr>sts_Name = cl_Name cluster @ ''-'' @ isoGroup, sts_Namespace = cl_Namespace cluster,
      sts_ResourceVersion = '''',
      sts_Labels = [''isolation-group'' \<mapsto> isoGroup],
      sts_OwnerReferences =
        [\<lparr>ref_Kind = ''m3dbcluster'', ref_Name = cl_Name cluster, ref_UID = cl_UID cluster,
          ref_Controller = Some True\<rparr>],
      sts_Replicas = Some n, sts_ReadyReplicas = 0\<rparr>"

definition ex_controller :: Controller where
  "ex_controller =
     \<lparr>labels_Cluster = ''cluster'',
      labels_IsolationGroup = ''isolation-group'',
      AnnotationKeyPodIdentity = ''pod-identity'',
      clusterLister_Get =
        (\<lambda>namespace name. if namespace = ''ns'' \<and> name = ''cluster'' then Inr ex_cluster
                          else Inl (External ''not found'')),
      podIDProvider_Identity = (\<lambda>pod cluster. Inr (ex_identity pod)),
      IdentityJSON = (\<lambda>ident. Inr (id_Name ident)),
      kubeClient_Pods_Update = (\<lambda>pod. None),
      ensureServices = (\<lambda>cluster. None),
      statefulSetLister_List = (\<lambda>n. Inr []),
      GenerateStatefulSet_error = (\<lambda>cluster isoGroup n. None),
      kubeClient_StatefulSets_Create = (\<lambda>sts. None),
      kubeClient_StatefulSets_Update = (\<lambda>sts. None),
      namespaceClient_List = Inr [],
      namespaceClient_Create = (\<lambda>name. None),
      namespaceClient_Delete = (\<lambda>name. None),
      validatePlacementWithStatus = (\<lambda>cluster. Inr True),
      podLister_List = Inr [],
      placementClient_Get = (\<lambda>n. Inr []),
      expandPlacementForSet = (\<lambda>cluster sts grp placement. None),
      shrinkPlacementForSet = (\<lambda>cluster sts. None),
      reconcileBootstrappingStatus = (\<lambda>cluster placement. Inr cluster)\<rparr>"

definition ex_pod :: "(string \<rightharpoonup> string) \<Rightarrow> (string \<rightharpoonup> string) \<Rightarrow> Pod" where
  "ex_pod labels annotations =
     \<lparr>pod_Name = ''cluster-a-0'', pod_Namespace = ''ns'', pod_Labels = labels,
      pod_Annotations = annotations\<rparr>"

definition ex_set :: "string \<Rightarrow> string \<Rightarrow> int32 option \<Rightarrow> int32 \<Rightarrow> StatefulSet" where
  "ex_set name zone replicas ready =
     \<lparr>sts_Name = name, sts_Namespace = ''ns'', sts_ResourceVersion = ''1'',
      sts_Labels = [''isolation-group'' \<mapsto> zone],
      sts_OwnerReferences =
        [\<lparr>ref_Kind = ''m3dbcluster'', ref_Name = ''cluster'', ref_UID = ''uid-1'',
          ref_Controller = Some True\<rparr>],
      sts_Replicas = replicas, sts_ReadyReplicas = ready\<rparr>"

definition ex_instance :: "string \<Rightarrow> string \<Rightarrow> Instance" where
  "ex_instance name zone = \<lparr>inst_ID = name, inst_IsolationGroup = zone, inst_IsAvailable = True\<rparr>"

text \<open>
  Both groups are at their size; group \<open>a\<close> (two instances wanted, two declared) has one
  instance in the placement.
\<close>

definition ex_expanding :: Controller where
  "ex_expanding =
     ex_controller
       \<lparr>statefulSetLister_List :=
          (\<lambda>n. Inr [ex_set ''cluster-1'' ''b'' (Some 1) 1, ex_set ''cluster-0'' ''a'' (Some 2) 2]),
        namespaceClient_List := Inr [''m'', ''n''],
        placementClient_Get :=
          (\<lambda>n. Inr [ex_instance ''cluster-0-0'' ''a'', ex_instance ''cluster-1-0'' ''b''])\<rparr>"

text \<open>
  As \<open>ex_expanding\<close>, with the set of group \<open>a\<close> declared at one replica, and a client
  whose update fails and hands back a nil pointer.
\<close>

definition ex_update_fails :: Controller where
  "ex_update_fails =
     ex_expanding
       \<lparr>statefulSetLister_List :=
          (\<lambda>n. Inr [ex_set ''cluster-1'' ''b'' (Some 1) 1, ex_set ''cluster-0'' ''a'' (Some 1) 1]),
        kubeClient_StatefulSets_Update := (\<lambda>sts. Some (None, External ''conflict''))\<rparr>"

text \<open>One child, declared at two replicas, none ready.\<close>

definition ex_waiting :: Controller where
  "ex_waiting =
     ex_controller\<lparr>statefulSetLister_List := (\<lambda>n. Inr [ex_set ''cluster-0'' ''a'' (Some 2) 0])\<rparr>"


text \<open>Three ready children, two isolation groups.\<close>

definition ex_surplus :: Controller where
  "ex_surplus =
     ex_controller
       \<lparr>statefulSetLister_List :=
          (\<lambda>n. Inr [ex_set ''cluster-0'' ''a'' (Some 2) 2, ex_set ''cluster-1'' ''b'' (Some 1) 1,
                     ex_set ''cluster-2'' ''c'' (Some 1) 1])\<rparr>"

text \<open>As \<open>ex_expanding\<close>, with the replicas of the set of group \<open>a\<close> unset.\<close>

definition ex_unset :: Controller where
  "ex_unset =
     ex_expanding
       \<lparr>statefulSetLister_List :=
          (\<lambda>n. Inr [ex_set ''cluster-1'' ''b'' (Some 1) 1, ex_set ''cluster-0'' ''a'' None 0])\<rparr>"

section \<open>Lemmas on runs\<close>

lemma fst_emit [simp]: "fst (emit cs r) = cs @ fst r"
  by (simp add: emit_def)

lemma snd_emit [simp]: "snd (emit cs r) = snd r"
  by (simp add: emit_def)

lemma fst_returned [simp]: "fst (returned r) = fst r"
  by (simp add: returned_def)

lemma snd_returned [simp]: "snd (returned r) = Return (snd r)"
  by (simp add: returned_def)

lemma length_sortGroups [simp]: "length (sortGroups gs) = length gs"
  by (simp add: sortGroups_def)

lemma checkPlacement_at_loop:
  assumes "podLister_List c = Inr pods" "placementClient_Get c 0 = Inr placement"
    "filter (\<lambda>inst. \<not> inst_IsAvailable inst) placement = []"
    "snd (getChildStatefulSets c 1 cluster) = Inr childrenSets"
  shows "checkPlacement c cluster isoGroups =
     emit ([Pods_List, Placement_Get,
            Log Info ''found placement''
              [ZapInt ''currentPods'' (length pods), ZapInt ''placementInsts'' (length placement)]] @
           fst (getChildStatefulSets c 1 cluster))
       (case scaleSets c cluster isoGroups placement childrenSets of
          Some r \<Rightarrow> r
        | None \<Rightarrow> returned (nothingToDo c cluster isoGroups childrenSets))"
  using assms
  by (cases "getChildStatefulSets c 1 cluster") (simp add: checkPlacement_def emit_def)


lemma createNamespaces_no_step: "\<not> list_ex is_step (fst (createNamespaces c ns))"
  by (induction ns) (auto simp: is_step_def split: option.splits)

lemma deleteNamespaces_no_step: "\<not> list_ex is_step (fst (deleteNamespaces c ns))"
  by (induction ns) (auto simp: is_step_def split: option.splits)

lemma reconcileNamespaces_no_step: "\<not> list_ex is_step (fst (reconcileNamespaces c cluster))"
proof (cases "namespaceClient_List c")
  case (Inl err)
  then show ?thesis by (simp add: reconcileNamespaces_def is_step_def)
next
  case (Inr live)
  obtain t r where cr:
    "createNamespaces c (filter (\<lambda>n. n \<notin> set live) (cl_Namespaces cluster)) = (t, r)"
    by (cases "createNamespaces c (filter (\<lambda>n. n \<notin> set live) (cl_Namespaces cluster))")
  have t: "\<not> list_ex is_step t"
    using createNamespaces_no_step [of c "filter (\<lambda>n. n \<notin> set live) (cl_Namespaces cluster)"] cr
    by simp
  show ?thesis
    using Inr cr t deleteNamespaces_no_step [of c "filter (\<lambda>n. n \<notin> set (cl_Namespaces cluster)) live"]
    by (cases r) (simp_all add: reconcileNamespaces_def is_step_def)
qed

lemma initPlacement_no_step: "\<not> list_ex is_step (fst (initPlacement c cluster))"
  by (simp add: initPlacement_def is_step_def split: sum.splits)

lemma getChildStatefulSets_no_step: "\<not> list_ex is_step (fst (getChildStatefulSets c n cluster))"
  by (simp add: getChildStatefulSets_def is_step_def split: sum.splits)

lemma nothingToDo_no_step: "\<not> list_ex is_step (fst (nothingToDo c cluster isoGroups childrenSets))"
  by (simp add: nothingToDo_def is_step_def split: sum.splits)

lemma reconcilePlacement_at_loop:
  assumes "snd (reconcileNamespaces c cluster) = None" "snd (initPlacement c cluster) = None"
  shows "\<exists>t. \<not> list_ex is_step t \<and>
           reconcilePlacement c cluster isoGroups = emit t (checkPlacement c cluster isoGroups)"
proof -
  obtain t1 where r1: "reconcileNamespaces c cluster = (t1, None)"
    using assms(1) by (cases "reconcileNamespaces c cluster") simp
  obtain t2 where r2: "initPlacement c cluster = (t2, None)"
    using assms(2) by (cases "initPlacement c cluster") simp
  let ?w = "if cl_Namespaces cluster = [] then
              [Log Warn ''cluster has no namespaces defined'' [ZapString ''cluster'' (cl_Name cluster)],
               WarningEvent ReasonUnknown ''cluster %s has no namespaces'' [cl_Name cluster]]
            else []"
  have eq: "reconcilePlacement c cluster isoGroups =
            emit (t1 @ ?w @ t2) (checkPlacement c cluster isoGroups)"
    using r1 r2 by (simp add: reconcilePlacement_def emit_def)
  have "\<not> list_ex is_step t1"
    using reconcileNamespaces_no_step [of c cluster] r1 by simp
  moreover have "\<not> list_ex is_step t2"
    using initPlacement_no_step [of c cluster] r2 by simp
  moreover have "\<not> list_ex is_step ?w"
    by (simp add: is_step_def)
  ultimately have "\<not> list_ex is_step (t1 @ ?w @ t2)" by simp
  with eq show ?thesis by blast
qed

lemma tick_at_loop:
  assumes "reachesLoop c cluster placement childrenSets"
  shows "\<exists>t. \<not> list_ex is_step t \<and>
           handleClusterUpdate c cluster =
             (let r = (case scaleSets c cluster (sortGroups (cl_IsolationGroups cluster))
                              placement childrenSets of
                         Some r \<Rightarrow> r
                       | None \<Rightarrow> returned (nothingToDo c cluster
                                   (sortGroups (cl_IsolationGroups cluster)) childrenSets))
              in (t @ fst r, snd r))"
proof -
  let ?gs = "sortGroups (cl_IsolationGroups cluster)"
  from assms have es: "ensureServices c cluster = None" and ne: "cl_IsolationGroups cluster \<noteq> []"
    and rn: "snd (reconcileNamespaces c cluster) = None"
    and ip: "snd (initPlacement c cluster) = None"
    and pl: "placementClient_Get c 0 = Inr placement"
    and av: "filter (\<lambda>inst. \<not> inst_IsAvailable inst) placement = []"
    and l1: "snd (getChildStatefulSets c 1 cluster) = Inr childrenSets"
    by (simp_all add: reachesLoop_def)
  from assms obtain pods where po: "podLister_List c = Inr pods"
    by (cases "podLister_List c") (simp_all add: reachesLoop_def)
  from assms obtain t0 first where l0: "getChildStatefulSets c 0 cluster = (t0, Inr first)"
    and gate: "find notReady first = None" and len: "length first = length (cl_IsolationGroups cluster)"
    by (cases "getChildStatefulSets c 0 cluster")
       (auto simp: reachesLoop_def split: sum.splits)
  have t0: "\<not> list_ex is_step t0"
    using getChildStatefulSets_no_step [of c 0 cluster] l0 by simp
  obtain t1 where t1: "\<not> list_ex is_step t1"
    and rp: "reconcilePlacement c cluster ?gs = emit t1 (checkPlacement c cluster ?gs)"
    using reconcilePlacement_at_loop [OF rn ip] by blast
  let ?t2 = "[Pods_List, Placement_Get,
            Log Info ''found placement''
              [ZapInt ''currentPods'' (length pods), ZapInt ''placementInsts'' (length placement)]] @
           fst (getChildStatefulSets c 1 cluster)"
  let ?r = "case scaleSets c cluster ?gs placement childrenSets of
              Some r \<Rightarrow> r
            | None \<Rightarrow> returned (nothingToDo c cluster ?gs childrenSets)"
  have cp: "checkPlacement c cluster ?gs = emit ?t2 ?r"
    by (rule checkPlacement_at_loop [OF po pl av l1])
  have t2: "\<not> list_ex is_step ?t2"
    using getChildStatefulSets_no_step [of c 1 cluster] by (simp add: is_step_def)
  have "handleClusterUpdate c cluster =
          ((Call_ensureServices # t0 @ t1 @ ?t2) @ fst ?r, snd ?r)"
    using es ne l0 gate len rp cp
    by (simp add: handleClusterUpdate_def emit_def Let_def)
  moreover have "\<not> list_ex is_step (Call_ensureServices # t0 @ t1 @ ?t2)"
    using t0 t1 t2 by (simp add: is_step_def)
  ultimately show ?thesis
    unfolding Let_def by blast
qed

lemma scaleSets_append:
  "scaleSets c cluster isoGroups placement done = None \<Longrightarrow>
   scaleSets c cluster isoGroups placement (done @ sts # rest) =
     (case scaleSet c cluster isoGroups placement sts of
        Some r \<Rightarrow> Some r
      | None \<Rightarrow> scaleSets c cluster isoGroups placement rest)"
  by (induction "done") (auto split: option.splits)

lemma filter_no_step: "\<not> list_ex is_step t \<Longrightarrow> filter is_step t = []"
  by (simp add: list_ex_iff filter_empty_conv)

lemma tick_returns_in_loop:
  assumes "reachesLoop c cluster placement childrenSets"
    and "scaleSets c cluster (sortGroups (cl_IsolationGroups cluster)) placement childrenSets =
           Some (l # [x], r)"
    and "\<not> is_step l"
  shows "filter is_step (fst (handleClusterUpdate c cluster)) = filter is_step [x] \<and>
         last (fst (handleClusterUpdate c cluster)) = x \<and>
         snd (handleClusterUpdate c cluster) = r"
proof -
  obtain t where t: "\<not> list_ex is_step t"
    and eq: "handleClusterUpdate c cluster = (t @ [l, x], r)"
    using tick_at_loop [OF assms(1)] assms(2) by (auto simp: Let_def)
  show ?thesis
    using filter_no_step [OF t] assms(3) by (simp add: eq)
qed

lemma create_is_step: "is_group_create x \<Longrightarrow> is_step x"
  by (cases x) (simp_all add: is_step_def)

lemma no_step_no_create: "\<not> list_ex is_step t \<Longrightarrow> \<not> list_ex is_group_create t"
  by (auto simp: list_ex_iff create_is_step)

lemma scaleSet_one_step:
  assumes "scaleSet c cluster isoGroups placement sts = Some r"
  shows "length (filter is_step (fst r)) \<le> 1 \<and> \<not> list_ex is_group_create (fst r)"
  using assms
  by (auto simp: scaleSet_def Let_def is_step_def split: option.splits if_splits)

lemma scaleSets_one_step:
  assumes "scaleSets c cluster isoGroups placement childrenSets = Some r"
  shows "length (filter is_step (fst r)) \<le> 1 \<and> \<not> list_ex is_group_create (fst r)"
  using assms
proof (induction childrenSets)
  case Nil
  then show ?case by simp
next
  case (Cons sts rest)
  show ?case
  proof (cases "scaleSet c cluster isoGroups placement sts")
    case None
    with Cons show ?thesis by simp
  next
    case (Some r')
    with Cons.prems have "r' = r" by simp
    with Some scaleSet_one_step show ?thesis by blast
  qed
qed

lemma after_quiet:
  assumes "\<not> list_ex is_step t"
    and "length (filter is_step u) \<le> 1 \<and> \<not> list_ex is_group_create u"
  shows "length (filter is_step (t @ u)) \<le> 1 \<and> \<not> list_ex is_group_create (t @ u)"
  using assms filter_no_step [OF assms(1)] no_step_no_create [OF assms(1)] by simp

lemma quiet_alone:
  assumes "\<not> list_ex is_step t"
  shows "length (filter is_step t) \<le> 1 \<and> \<not> list_ex is_group_create t"
  using filter_no_step [OF assms] no_step_no_create [OF assms] by simp

lemma checkPlacement_one_step:
  "length (filter is_step (fst (checkPlacement c cluster isoGroups))) \<le> 1 \<and>
   \<not> list_ex is_group_create (fst (checkPlacement c cluster isoGroups))"
proof (cases "podLister_List c")
  case (Inl err)
  then show ?thesis by (simp add: checkPlacement_def is_step_def)
next
  case pods: (Inr pods)
  show ?thesis
  proof (cases "placementClient_Get c 0")
    case (Inl err)
    with pods show ?thesis by (simp add: checkPlacement_def is_step_def)
  next
    case pl: (Inr placement)
    show ?thesis
    proof (cases "filter (\<lambda>inst. \<not> inst_IsAvailable inst) placement = []")
      case False
      with pods pl show ?thesis by (simp add: checkPlacement_def is_step_def Let_def)
    next
      case avail: True
      obtain t l where l: "getChildStatefulSets c 1 cluster = (t, l)"
        by (cases "getChildStatefulSets c 1 cluster")
      have t: "\<not> list_ex is_step t"
        using getChildStatefulSets_no_step [of c 1 cluster] l by simp
      let ?p = "[Pods_List, Placement_Get,
            Log Info ''found placement''
              [ZapInt ''currentPods'' (length pods), ZapInt ''placementInsts'' (length placement)]] @ t"
      have p: "\<not> list_ex is_step ?p"
        using t by (simp add: is_step_def)
      show ?thesis
      proof (cases l)
        case (Inl err)
        have "fst (checkPlacement c cluster isoGroups) = ?p"
          using pods pl avail l Inl by (simp add: checkPlacement_def)
        with quiet_alone [OF p] show ?thesis by simp
      next
        case (Inr childrenSets)
        let ?r = "case scaleSets c cluster isoGroups placement childrenSets of
                    Some r \<Rightarrow> r
                  | None \<Rightarrow> returned (nothingToDo c cluster isoGroups childrenSets)"
        have eq: "fst (checkPlacement c cluster isoGroups) = ?p @ fst ?r"
          using pods pl avail l Inr by (simp add: checkPlacement_def)
        have "length (filter is_step (fst ?r)) \<le> 1 \<and> \<not> list_ex is_group_create (fst ?r)"
        proof (cases "scaleSets c cluster isoGroups placement childrenSets")
          case None
          with quiet_alone [OF nothingToDo_no_step [of c cluster isoGroups childrenSets]]
          show ?thesis by simp
        next
          case (Some r)
          with scaleSets_one_step [OF Some] show ?thesis by simp
        qed
        from after_quiet [OF p this] eq show ?thesis by simp
      qed
    qed
  qed
qed

lemma reconcilePlacement_one_step:
  "length (filter is_step (fst (reconcilePlacement c cluster isoGroups))) \<le> 1 \<and>
   \<not> list_ex is_group_create (fst (reconcilePlacement c cluster isoGroups))"
proof -
  obtain t1 r1 where r1: "reconcileNamespaces c cluster = (t1, r1)"
    by (cases "reconcileNamespaces c cluster")
  obtain t2 r2 where r2: "initPlacement c cluster = (t2, r2)"
    by (cases "initPlacement c cluster")
  have t1: "\<not> list_ex is_step t1"
    using reconcileNamespaces_no_step [of c cluster] r1 by simp
  have t2: "\<not> list_ex is_step t2"
    using initPlacement_no_step [of c cluster] r2 by simp
  let ?w = "if cl_Namespaces cluster = [] then
              [Log Warn ''cluster has no namespaces defined'' [ZapString ''cluster'' (cl_Name cluster)],
               WarningEvent ReasonUnknown ''cluster %s has no namespaces'' [cl_Name cluster]]
            else []"
  have w: "\<not> list_ex is_step ?w" by (simp add: is_step_def)
  show ?thesis
  proof (cases r1)
    case (Some err)
    have "\<not> list_ex is_step (fst (reconcilePlacement c cluster isoGroups))"
      using r1 Some t1 by (simp add: reconcilePlacement_def is_step_def)
    from quiet_alone [OF this] show ?thesis .
  next
    case n1: None
    show ?thesis
    proof (cases r2)
      case (Some err)
      have "fst (reconcilePlacement c cluster isoGroups) = t1 @ ?w @ t2"
        using r1 n1 r2 Some by (simp add: reconcilePlacement_def)
      moreover have "\<not> list_ex is_step (t1 @ ?w @ t2)"
        using t1 t2 w by simp
      ultimately show ?thesis using quiet_alone by metis
    next
      case None
      have eq: "fst (reconcilePlacement c cluster isoGroups) =
                (t1 @ ?w @ t2) @ fst (checkPlacement c cluster isoGroups)"
        using r1 n1 r2 None by (simp add: reconcilePlacement_def)
      have "\<not> list_ex is_step (t1 @ ?w @ t2)"
        using t1 t2 w by simp
      from after_quiet [OF this checkPlacement_one_step [of c cluster isoGroups]] eq
      show ?thesis by simp
    qed
  qed
qed

lemma createStatefulSet_one_step:
  "length (filter is_step (fst (createStatefulSet c cluster isoGroups childrenSets))) \<le> 1"
  by (simp add: createStatefulSet_def Let_def is_step_def split: sum.splits option.splits)

lemma tick_one_step: "length (filter is_step (fst (handleClusterUpdate c cluster))) \<le> 1"
proof -
  let ?gs = "sortGroups (cl_IsolationGroups cluster)"
  obtain t0 l0 where l0: "getChildStatefulSets c 0 cluster = (t0, l0)"
    by (cases "getChildStatefulSets c 0 cluster")
  have t0: "filter is_step t0 = []"
    using filter_no_step [OF getChildStatefulSets_no_step [of c 0 cluster]] l0 by simp
  have rp: "length (filter is_step (fst (reconcilePlacement c cluster ?gs))) \<le> 1"
    using reconcilePlacement_one_step by blast
  show ?thesis
    using t0 rp l0 createStatefulSet_one_step [of c cluster ?gs]
    by (simp add: handleClusterUpdate_def Let_def is_step_def [of Call_ensureServices]
          is_step_def [of "Log l m f" for l m f]
        split: option.splits sum.splits)
qed


lemma find_notReady_member:
  assumes "sts \<in> set childrenSets" "notReady sts"
  shows "\<exists>s. find notReady childrenSets = Some s"
  using assms by (cases "find notReady childrenSets") (auto simp: find_None_iff)



lemma find_notReady_unset:
  "sts_Replicas sts = None \<Longrightarrow> find notReady (xs @ sts # ys) = find notReady (xs @ ys)"
  by (induction xs) (simp_all add: notReady_def)



text \<open>
  The decision of the loop for the child it comes to, in a tick that gets to the loop:
  with \<open>desired\<close> the size of the isolation group the child's label names, \<open>current\<close>
  its declared replicas and \<open>inPlacement\<close> the number of placement instances of that
  group (as the \<^verbatim>\<open>int32\<close> of line 468), the child is skipped, or the placement is
  expanded or shrunk for it, or the child is updated to one replica more or less. The
  step is the only one of the tick and its last call. After an expansion or a shrink the
  tick returns what the helper returns; after an update it returns nil, or the wrapped
  error, or panics when the failed update hands back a nil pointer.
\<close>

lemma loop_decision:
  assumes "reachesLoop c cluster placement (done @ sts # rest)"
    and "isoGroups = sortGroups (cl_IsolationGroups cluster)"
    and "scaleSets c cluster isoGroups placement done = None"
    and "sts_Labels sts (labels_IsolationGroup c) = Some zone"
    and "GetByName isoGroups zone = Some grp"
    and "sts_Replicas sts = Some current"
    and "desired = ig_NumInstances grp"
    and "inPlacement = of_nat (length (instancesInIsoGroup placement (ig_Name grp)))"
  shows
    "(desired = current \<and> current = inPlacement \<longrightarrow>
        scaleSets c cluster isoGroups placement (done @ sts # rest) =
        scaleSets c cluster isoGroups placement rest) \<and>
     (desired = current \<and> inPlacement <s current \<longrightarrow>
        filter is_step (fst (handleClusterUpdate c cluster)) = [Call_expandPlacementForSet sts grp] \<and>
        last (fst (handleClusterUpdate c cluster)) = Call_expandPlacementForSet sts grp \<and>
        snd (handleClusterUpdate c cluster) =
          Return (expandPlacementForSet c cluster sts grp placement)) \<and>
     (desired <s inPlacement \<longrightarrow>
        filter is_step (fst (handleClusterUpdate c cluster)) = [Call_shrinkPlacementForSet sts] \<and>
        last (fst (handleClusterUpdate c cluster)) = Call_shrinkPlacementForSet sts \<and>
        snd (handleClusterUpdate c cluster) = Return (shrinkPlacementForSet c cluster sts)) \<and>
     (\<not> (desired = current \<and> current = inPlacement) \<and>
      \<not> (desired = current \<and> inPlacement <s current) \<and> \<not> desired <s inPlacement \<longrightarrow>
        (let newCount = (if current <s desired then current + 1 else current - 1);
             sts' = sts\<lparr>sts_Replicas := Some newCount\<rparr>
         in filter is_step (fst (handleClusterUpdate c cluster)) = [StatefulSets_Update sts'] \<and>
            last (fst (handleClusterUpdate c cluster)) = StatefulSets_Update sts' \<and>
            snd (handleClusterUpdate c cluster) =
              (case kubeClient_StatefulSets_Update c sts' of
                 None \<Rightarrow> Return None
               | Some (None, err) \<Rightarrow> Panic_NilDereference
               | Some (Some r, err) \<Rightarrow> Return (Some (ErrUpdatingStatefulSet (sts_Name r) err)))))"
proof -
  note loop = scaleSets_append [OF assms(3), of sts rest]
  note at = tick_returns_in_loop [OF assms(1), folded assms(2)]
  have skip: "desired = current \<and> current = inPlacement \<Longrightarrow>
      scaleSets c cluster isoGroups placement (done @ sts # rest) =
      scaleSets c cluster isoGroups placement rest"
    using assms(4-8) by (simp add: loop scaleSet_def Let_def)
  have expand: "desired = current \<and> inPlacement <s current \<Longrightarrow>
        filter is_step (fst (handleClusterUpdate c cluster)) = [Call_expandPlacementForSet sts grp] \<and>
        last (fst (handleClusterUpdate c cluster)) = Call_expandPlacementForSet sts grp \<and>
        snd (handleClusterUpdate c cluster) =
          Return (expandPlacementForSet c cluster sts grp placement)"
  proof -
    assume a: "desired = current \<and> inPlacement <s current"
    then have ne: "current \<noteq> inPlacement" by auto
    have "scaleSets c cluster isoGroups placement (done @ sts # rest) =
          Some ([Log Info ''expanding placement for set''
                   [ZapString ''statefulSet'' (sts_Name sts), ZapInt32 ''inPlacement'' inPlacement,
                    ZapInt32 ''current'' current, ZapInt32 ''desired'' desired],
                 Call_expandPlacementForSet sts grp],
                Return (expandPlacementForSet c cluster sts grp placement))"
      using assms(4-8) a ne by (simp add: loop scaleSet_def Let_def)
    from at [OF this] show ?thesis by (simp add: is_step_def)
  qed
  have shrink: "desired <s inPlacement \<Longrightarrow>
        filter is_step (fst (handleClusterUpdate c cluster)) = [Call_shrinkPlacementForSet sts] \<and>
        last (fst (handleClusterUpdate c cluster)) = Call_shrinkPlacementForSet sts \<and>
        snd (handleClusterUpdate c cluster) = Return (shrinkPlacementForSet c cluster sts)"
  proof -
    assume a: "desired <s inPlacement"
    then have ne: "\<not> (desired = current \<and> current = inPlacement)"
      and nl: "\<not> (desired = current \<and> inPlacement <s current)"
      by (auto simp: word_sless_alt)
    have "scaleSets c cluster isoGroups placement (done @ sts # rest) =
          Some ([Log Info ''remove instance from placement for set''
                   [ZapString ''statefulSet'' (sts_Name sts), ZapInt32 ''inPlacement'' inPlacement,
                    ZapInt32 ''current'' current, ZapInt32 ''desired'' desired],
                 Call_shrinkPlacementForSet sts],
                Return (shrinkPlacementForSet c cluster sts))"
      using assms(4-8) a ne nl by (auto simp add: loop scaleSet_def Let_def)
    from at [OF this] show ?thesis by (simp add: is_step_def)
  qed
  have resize: "\<not> (desired = current \<and> current = inPlacement) \<and>
      \<not> (desired = current \<and> inPlacement <s current) \<and> \<not> desired <s inPlacement \<Longrightarrow>
        (let newCount = (if current <s desired then current + 1 else current - 1);
             sts' = sts\<lparr>sts_Replicas := Some newCount\<rparr>
         in filter is_step (fst (handleClusterUpdate c cluster)) = [StatefulSets_Update sts'] \<and>
            last (fst (handleClusterUpdate c cluster)) = StatefulSets_Update sts' \<and>
            snd (handleClusterUpdate c cluster) =
              (case kubeClient_StatefulSets_Update c sts' of
                 None \<Rightarrow> Return None
               | Some (None, err) \<Rightarrow> Panic_NilDereference
               | Some (Some r, err) \<Rightarrow> Return (Some (ErrUpdatingStatefulSet (sts_Name r) err))))"
  proof -
    assume a: "\<not> (desired = current \<and> current = inPlacement) \<and>
      \<not> (desired = current \<and> inPlacement <s current) \<and> \<not> desired <s inPlacement"
    let ?n = "if current <s desired then current + 1 else current - 1"
    let ?s = "sts\<lparr>sts_Replicas := Some ?n\<rparr>"
    have "scaleSets c cluster isoGroups placement (done @ sts # rest) =
          Some ([Log Info ''resizing set, desired != current''
                   ([ZapString ''statefulSet'' (sts_Name sts), ZapInt32 ''inPlacement'' inPlacement,
                    ZapInt32 ''current'' current, ZapInt32 ''desired'' desired] @
                    [ZapInt32 ''newSize'' ?n]),
                 StatefulSets_Update ?s],
                (case kubeClient_StatefulSets_Update c ?s of
                   None \<Rightarrow> Return None
                 | Some (None, err) \<Rightarrow> Panic_NilDereference
                 | Some (Some r, err) \<Rightarrow> Return (Some (ErrUpdatingStatefulSet (sts_Name r) err))))"
      using assms(4-8) a by (auto simp add: loop scaleSet_def Let_def)
    from at [OF this] show ?thesis by (simp add: is_step_def Let_def)
  qed
  from skip expand shrink resize show ?thesis by blast
qed



section \<open>Runs in the example worlds\<close>

lemma ex_sorted:
  "sortGroups (cl_IsolationGroups ex_cluster) =
     [\<lparr>ig_Name = ''a'', ig_NumInstances = 2\<rparr>, \<lparr>ig_Name = ''b'', ig_NumInstances = 1\<rparr>]"
  by (simp add: sortGroups_def ex_cluster_def)

lemma ex_set_controlled: "IsControlledBy (ex_set name zone replicas ready) ex_cluster"
  by (simp add: IsControlledBy_def GetControllerOf_def ex_set_def ex_cluster_def)

lemma ex_update_fails_reaches:
  "reachesLoop ex_update_fails ex_cluster
     [ex_instance ''cluster-0-0'' ''a'', ex_instance ''cluster-1-0'' ''b'']
     [ex_set ''cluster-1'' ''b'' (Some 1) 1, ex_set ''cluster-0'' ''a'' (Some 1) 1]"
proof -
  have ns: "snd (reconcileNamespaces ex_update_fails ex_cluster) = None"
    by (simp add: reconcileNamespaces_def ex_update_fails_def ex_expanding_def ex_controller_def
        ex_cluster_def)
  have ip: "snd (initPlacement ex_update_fails ex_cluster) = None"
    by (simp add: initPlacement_def HasInitializedPlacement_def ex_cluster_def)
  have l: "snd (getChildStatefulSets ex_update_fails n ex_cluster) =
        Inr [ex_set ''cluster-1'' ''b'' (Some 1) 1, ex_set ''cluster-0'' ''a'' (Some 1) 1]" for n
    by (simp add: getChildStatefulSets_def ex_update_fails_def ex_set_controlled)
  have g: "\<not> notReady (ex_set name zone (Some r) r)" for name zone r
    by (simp add: notReady_def ex_set_def)
  show ?thesis
    unfolding reachesLoop_def
    by (simp add: ns ip l g)
       (simp add: ex_update_fails_def ex_expanding_def ex_controller_def ex_cluster_def
          ex_instance_def)
qed

lemma ex_unset_reaches:
  "reachesLoop ex_unset ex_cluster
     [ex_instance ''cluster-0-0'' ''a'', ex_instance ''cluster-1-0'' ''b'']
     [ex_set ''cluster-1'' ''b'' (Some 1) 1, ex_set ''cluster-0'' ''a'' None 0]"
proof -
  have ns: "snd (reconcileNamespaces ex_unset ex_cluster) = None"
    by (simp add: reconcileNamespaces_def ex_unset_def ex_expanding_def ex_controller_def
        ex_cluster_def)
  have ip: "snd (initPlacement ex_unset ex_cluster) = None"
    by (simp add: initPlacement_def HasInitializedPlacement_def ex_cluster_def)
  have l: "snd (getChildStatefulSets ex_unset n ex_cluster) =
        Inr [ex_set ''cluster-1'' ''b'' (Some 1) 1, ex_set ''cluster-0'' ''a'' None 0]" for n
    by (simp add: getChildStatefulSets_def ex_unset_def ex_set_controlled)
  have g: "\<not> notReady (ex_set name zone (Some r) r)" "\<not> notReady (ex_set name zone None r)"
    for name zone r
    by (simp_all add: notReady_def ex_set_def)
  show ?thesis
    unfolding reachesLoop_def
    by (simp add: ns ip l g)
       (simp add: ex_unset_def ex_expanding_def ex_controller_def ex_cluster_def ex_instance_def)
qed

section \<open>The cluster handler: properties\<close>

text \<open>
  C1 (per-group scaling decision). The loop decides for each child as the claim says
  (\<open>loop_decision\<close>), but after the update of a set the tick does not always return:
  line 508 assigns what the update returns to \<^verbatim>\<open>set\<close> and line 510 reads
  \<^verbatim>\<open>set.Name\<close> for the error message. Here group \<open>a\<close> wants two instances, its set
  declares one and one instance is in the placement, and the client's update fails
  handing back a nil pointer: the only step of the tick, and its last call, is the update
  of the set to two replicas, and the tick ends in a nil pointer dereference.
\<close>

theorem resize_update_panics:
  "filter is_step (fst (handleClusterUpdate ex_update_fails ex_cluster)) =
     [StatefulSets_Update (ex_set ''cluster-0'' ''a'' (Some 2) 1)] \<and>
   last (fst (handleClusterUpdate ex_update_fails ex_cluster)) =
     StatefulSets_Update (ex_set ''cluster-0'' ''a'' (Some 2) 1) \<and>
   snd (handleClusterUpdate ex_update_fails ex_cluster) = Panic_NilDereference"
proof -
  let ?gs = "[\<lparr>ig_Name = ''a'', ig_NumInstances = 2\<rparr>, \<lparr>ig_Name = ''b'', ig_NumInstances = 1\<rparr>]"
  let ?pl = "[ex_instance ''cluster-0-0'' ''a'', ex_instance ''cluster-1-0'' ''b'']"
  let ?b = "ex_set ''cluster-1'' ''b'' (Some 1) 1"
  let ?a = "ex_set ''cluster-0'' ''a'' (Some 1) 1"
  have reach: "reachesLoop ex_update_fails ex_cluster ?pl ([?b] @ ?a # [])"
    using ex_update_fails_reaches by simp
  have gs: "?gs = sortGroups (cl_IsolationGroups ex_cluster)"
    by (simp add: ex_sorted)
  have skipped: "scaleSets ex_update_fails ex_cluster ?gs ?pl [?b] = None"
    by (simp add: scaleSet_def GetByName_def instancesInIsoGroup_def ex_set_def ex_instance_def
        ex_update_fails_def ex_expanding_def ex_controller_def)
  have label: "sts_Labels ?a (labels_IsolationGroup ex_update_fails) = Some ''a''"
    by (simp add: ex_set_def ex_update_fails_def ex_expanding_def ex_controller_def)
  have grp: "GetByName ?gs ''a'' = Some \<lparr>ig_Name = ''a'', ig_NumInstances = 2\<rparr>"
    by (simp add: GetByName_def)
  have cur: "sts_Replicas ?a = Some 1"
    by (simp add: ex_set_def)
  have des: "(2 :: int32) = ig_NumInstances \<lparr>ig_Name = ''a'', ig_NumInstances = 2\<rparr>"
    by simp
  have inp: "(1 :: int32) =
      of_nat (length (instancesInIsoGroup ?pl (ig_Name \<lparr>ig_Name = ''a'', ig_NumInstances = 2\<rparr>)))"
    by (simp add: instancesInIsoGroup_def ex_instance_def)
  have case4: "\<not> ((2 :: int32) = 1 \<and> (1 :: int32) = 1) \<and>
      \<not> ((2 :: int32) = 1 \<and> (1 :: int32) <s 1) \<and> \<not> (2 :: int32) <s 1"
    by (simp add: word_sless_alt)
  have new: "(if (1 :: int32) <s 2 then (1 :: int32) + 1 else 1 - 1) = 2"
    by (simp add: word_sless_alt)
  have set': "?a\<lparr>sts_Replicas := Some 2\<rparr> = ex_set ''cluster-0'' ''a'' (Some 2) 1"
    by (simp add: ex_set_def)
  have upd: "kubeClient_StatefulSets_Update ex_update_fails (ex_set ''cluster-0'' ''a'' (Some 2) 1) =
      Some (None, External ''conflict'')"
    by (simp add: ex_update_fails_def)
  from loop_decision [OF reach gs skipped label grp cur des inp] case4
  show ?thesis
    by (simp add: Let_def new set' upd)
qed

text \<open>
  C3 (readiness gate). If a child of the cluster (a stateful set the lister returns and
  the cluster controls) has its declared replicas set and different from its ready
  replicas, the tick makes no mutation: it creates no stateful set, updates none, and
  makes no namespace or placement write. It returns nil once the services are ensured
  (\<^verbatim>\<open>ensureServices\<close> runs before the gate, and its error is returned as it is).
\<close>

theorem readiness_gate:
  assumes "statefulSetLister_List c 0 = Inr statefulSets"
    and "sts \<in> set statefulSets"
    and "IsControlledBy sts cluster"
    and "sts_Replicas sts = Some declared"
    and "declared \<noteq> sts_ReadyReplicas sts"
  shows "\<not> list_ex is_mutation (fst (handleClusterUpdate c cluster)) \<and>
         (ensureServices c cluster = None \<longrightarrow> snd (handleClusterUpdate c cluster) = Return None)"
proof -
  let ?children = "filter (\<lambda>sts. IsControlledBy sts cluster) statefulSets"
  have l: "getChildStatefulSets c 0 cluster = ([StatefulSets_List], Inr ?children)"
    using assms(1) by (simp add: getChildStatefulSets_def emit_def)
  have "sts \<in> set ?children" using assms(2,3) by simp
  moreover have "notReady sts" using assms(4,5) by (simp add: notReady_def)
  ultimately obtain s where s: "find notReady ?children = Some s"
    using find_notReady_member by blast
  show ?thesis
    by (simp add: handleClusterUpdate_def l s Let_def is_mutation_def split: option.splits)
qed

theorem readiness_gate_witness:
  "handleClusterUpdate ex_waiting ex_cluster =
     ([Call_ensureServices, StatefulSets_List,
       Log Info ''waiting for statefulset to be ready''
         [ZapString ''name'' ''cluster-0'', ZapInt32 ''ready'' 0]],
      Return None) \<and>
   \<not> list_ex is_mutation (fst (handleClusterUpdate ex_waiting ex_cluster))"
proof -
  let ?s = "ex_set ''cluster-0'' ''a'' (Some 2) 0"
  have l: "statefulSetLister_List ex_waiting 0 = Inr [?s]"
    by (simp add: ex_waiting_def)
  have m: "?s \<in> set [?s]" by simp
  have r: "sts_Replicas ?s = Some 2" by (simp add: ex_set_def)
  have d: "(2 :: int32) \<noteq> sts_ReadyReplicas ?s" by (simp add: ex_set_def)
  have es: "ensureServices ex_waiting ex_cluster = None"
    by (simp add: ex_waiting_def ex_controller_def)
  have gl: "getChildStatefulSets ex_waiting 0 ex_cluster = ([StatefulSets_List], Inr [?s])"
    by (simp add: getChildStatefulSets_def emit_def l ex_set_controlled)
  have nr: "notReady ?s" by (simp add: notReady_def ex_set_def)
  have ne: "cl_IsolationGroups ex_cluster \<noteq> []" by (simp add: ex_cluster_def)
  have run: "fst (handleClusterUpdate ex_waiting ex_cluster) =
     [Call_ensureServices, StatefulSets_List,
       Log Info ''waiting for statefulset to be ready''
         [ZapString ''name'' ''cluster-0'', ZapInt32 ''ready'' 0]]"
    by (simp add: handleClusterUpdate_def es ne gl nr Let_def) (simp add: ex_set_def)
  from readiness_gate [OF l m ex_set_controlled r d] es run show ?thesis
    by (simp add: prod_eq_iff)
qed



text \<open>
  C5 (index of the next group). The creation branch is taken when the number of children
  differs from the number of isolation groups (line 370), also when there are more
  children. With three ready children and two isolation groups the index is 3 in a list
  of length 2: the tick ends in the runtime's panic, after listing the children.
\<close>

theorem index_out_of_range:
  "handleClusterUpdate ex_surplus ex_cluster =
     ([Call_ensureServices, StatefulSets_List], Panic_IndexOutOfRange 3 2)"
proof -
  have es: "ensureServices ex_surplus ex_cluster = None"
    by (simp add: ex_surplus_def ex_controller_def)
  have ne: "cl_IsolationGroups ex_cluster \<noteq> []" by (simp add: ex_cluster_def)
  have l: "getChildStatefulSets ex_surplus 0 ex_cluster =
      ([StatefulSets_List],
       Inr [ex_set ''cluster-0'' ''a'' (Some 2) 2, ex_set ''cluster-1'' ''b'' (Some 1) 1,
            ex_set ''cluster-2'' ''c'' (Some 1) 1])"
    by (simp add: getChildStatefulSets_def emit_def ex_surplus_def ex_set_controlled)
  have g: "\<not> notReady (ex_set name zone (Some r) r)" for name zone r
    by (simp add: notReady_def ex_set_def)
  show ?thesis
    by (simp add: handleClusterUpdate_def es ne l g ex_sorted createStatefulSet_def Let_def emit_def)
qed

text \<open>
  C6 (no isolation groups), as amended. When the cluster has no isolation groups the tick
  calls \<^verbatim>\<open>ensureServices\<close> and nothing else, and returns what that call returns: nil
  when the services are ensured. It emits no warning event and returns no error of its
  own, and it makes no group, namespace or placement write.
\<close>

theorem no_isolation_groups:
  assumes "cl_IsolationGroups cluster = []"
  shows "handleClusterUpdate c cluster = ([Call_ensureServices], Return (ensureServices c cluster))"
  using assms by (simp add: handleClusterUpdate_def emit_def split: option.splits)

theorem no_isolation_groups_witness:
  "cl_IsolationGroups (ex_cluster\<lparr>cl_IsolationGroups := []\<rparr>) = [] \<and>
   handleClusterUpdate ex_controller (ex_cluster\<lparr>cl_IsolationGroups := []\<rparr>) =
     ([Call_ensureServices], Return None)"
proof -
  have e: "cl_IsolationGroups (ex_cluster\<lparr>cl_IsolationGroups := []\<rparr>) = []" by simp
  have s: "ensureServices ex_controller (ex_cluster\<lparr>cl_IsolationGroups := []\<rparr>) = None"
    by (simp add: ex_controller_def)
  from no_isolation_groups [OF e, of ex_controller] e s show ?thesis by simp
qed

text \<open>
  The claim as stated fails: on a cluster without isolation groups whose services are
  ensured, the tick returns nil and emits no warning event.
\<close>

theorem missing_groups_counterexample:
  "snd (handleClusterUpdate ex_controller (ex_cluster\<lparr>cl_IsolationGroups := []\<rparr>)) = Return None \<and>
   \<not> list_ex is_WarningEvent
        (fst (handleClusterUpdate ex_controller (ex_cluster\<lparr>cl_IsolationGroups := []\<rparr>)))"
  by (simp add: handleClusterUpdate_def emit_def ex_controller_def)

text \<open>
  C9 (unset replicas). A child whose declared replicas are unset does not hold the
  readiness gate: the gate's condition is false of it, and the gate decides as it does
  without that child. When a tick gets to the loop over the children and the loop comes
  to such a child (the children before it skipped, its label naming a known isolation
  group), the tick returns the error \<^verbatim>\<open>set <name> has unset spec replica\<close> and makes
  no step: no stateful set created or resized, no placement expansion or shrink.
\<close>

theorem unset_replicas:
  assumes "sts_Replicas sts = None"
    and "reachesLoop c cluster placement (done @ sts # rest)"
    and "isoGroups = sortGroups (cl_IsolationGroups cluster)"
    and "scaleSets c cluster isoGroups placement done = None"
    and "sts_Labels sts (labels_IsolationGroup c) = Some zone"
    and "GetByName isoGroups zone = Some grp"
  shows "\<not> notReady sts \<and>
         (\<forall>xs ys. find notReady (xs @ sts # ys) = find notReady (xs @ ys)) \<and>
         snd (handleClusterUpdate c cluster) = Return (Some (ErrUnsetSpecReplica (sts_Name sts))) \<and>
         \<not> list_ex is_step (fst (handleClusterUpdate c cluster))"
proof -
  have gate: "\<not> notReady sts" using assms(1) by (simp add: notReady_def)
  have loop: "scaleSets c cluster isoGroups placement (done @ sts # rest) =
                Some ([], Return (Some (ErrUnsetSpecReplica (sts_Name sts))))"
    using assms(1,5,6) by (simp add: scaleSets_append [OF assms(4)] scaleSet_def)
  obtain t where t: "\<not> list_ex is_step t"
    and eq: "handleClusterUpdate c cluster = (t, Return (Some (ErrUnsetSpecReplica (sts_Name sts))))"
    using tick_at_loop [OF assms(2)] loop assms(3) by (auto simp: Let_def)
  from gate find_notReady_unset [OF assms(1)] t eq show ?thesis by simp
qed

theorem unset_replicas_witness:
  "reachesLoop ex_unset ex_cluster
     [ex_instance ''cluster-0-0'' ''a'', ex_instance ''cluster-1-0'' ''b'']
     [ex_set ''cluster-1'' ''b'' (Some 1) 1, ex_set ''cluster-0'' ''a'' None 0] \<and>
   snd (handleClusterUpdate ex_unset ex_cluster) = Return (Some (ErrUnsetSpecReplica ''cluster-0'')) \<and>
   \<not> list_ex is_step (fst (handleClusterUpdate ex_unset ex_cluster))"
proof -
  let ?gs = "[\<lparr>ig_Name = ''a'', ig_NumInstances = 2\<rparr>, \<lparr>ig_Name = ''b'', ig_NumInstances = 1\<rparr>]"
  let ?pl = "[ex_instance ''cluster-0-0'' ''a'', ex_instance ''cluster-1-0'' ''b'']"
  let ?b = "ex_set ''cluster-1'' ''b'' (Some 1) 1"
  let ?a = "ex_set ''cluster-0'' ''a'' None 0"
  have unset: "sts_Replicas ?a = None" by (simp add: ex_set_def)
  have reach: "reachesLoop ex_unset ex_cluster ?pl ([?b] @ ?a # [])"
    using ex_unset_reaches by simp
  have gs: "?gs = sortGroups (cl_IsolationGroups ex_cluster)"
    by (simp add: ex_sorted)
  have skipped: "scaleSets ex_unset ex_cluster ?gs ?pl [?b] = None"
    by (simp add: scaleSet_def GetByName_def instancesInIsoGroup_def ex_set_def ex_instance_def
        ex_unset_def ex_expanding_def ex_controller_def)
  have label: "sts_Labels ?a (labels_IsolationGroup ex_unset) = Some ''a''"
    by (simp add: ex_set_def ex_unset_def ex_expanding_def ex_controller_def)
  have grp: "GetByName ?gs ''a'' = Some \<lparr>ig_Name = ''a'', ig_NumInstances = 2\<rparr>"
    by (simp add: GetByName_def)
  have nm: "sts_Name ?a = ''cluster-0''" by (simp add: ex_set_def)
  from unset_replicas [OF unset reach gs skipped label grp] nm ex_unset_reaches
  show ?thesis by simp
qed

section \<open>The pod handler: properties\<close>

text \<open>
  C8 (orphan pod). A pod without the cluster label: the handler returns nil and makes no
  call at all, so no cluster lookup, no identity computation and no pod update.
\<close>

theorem orphan_pod_dropped:
  assumes "pod_Labels pod (labels_Cluster c) = None"
  shows "handlePodUpdate c pod = ([], None)"
  using assms by (simp add: handlePodUpdate_def getClusterValue_def)

theorem orphan_pod_dropped_witness:
  "handlePodUpdate ex_controller (ex_pod Map.empty Map.empty) = ([], None)"
  using orphan_pod_dropped [of "ex_pod Map.empty Map.empty" ex_controller]
  by (simp add: ex_pod_def ex_controller_def)

text \<open>
  C7 (sticky identity). A pod that carries the identity annotation: no run of the
  handler updates the pod. When the cluster is found and the identity computed and
  serialised, the run is the lookups and log lines below, with the warning
  \<^verbatim>\<open>pod ID mismatch\<close> exactly when the stored annotation differs from the computed
  identity, and the handler returns nil.
\<close>

theorem annotated_pod_unchanged:
  assumes "pod_Annotations pod (AnnotationKeyPodIdentity c) = Some currentID"
  shows "\<not> list_ex is_Pods_Update (fst (handlePodUpdate c pod)) \<and>
         (\<forall>name cluster ident idStr.
            pod_Labels pod (labels_Cluster c) = Some name \<longrightarrow>
            clusterLister_Get c (pod_Namespace pod) name = Inr cluster \<longrightarrow>
            podIDProvider_Identity c pod cluster = Inr ident \<longrightarrow>
            IdentityJSON c ident = Inr idStr \<longrightarrow>
            handlePodUpdate c pod =
              ([Log Info ''processing pod'' [ZapString ''pod'' (pod_Name pod)],
                Clusters_Get (pod_Namespace pod) name, Call_Identity, Call_IdentityJSON,
                Log Info ''pod ID'' [ZapString ''pod'' (pod_Name pod), ZapAny ''id'' ident]] @
               (if currentID \<noteq> idStr
                then [Log Warn ''pod ID mismatch''
                        [ZapString ''pod'' (pod_Name pod), ZapString ''currentID'' currentID,
                         ZapString ''newID'' idStr]]
                else []),
               None))"
  using assms
  by (auto simp add: handlePodUpdate_def getClusterValue_def getParentCluster_def emit_def Let_def
      split: option.splits sum.splits prod.splits)

theorem annotated_pod_unchanged_witness:
  "\<not> list_ex is_Pods_Update
       (fst (handlePodUpdate ex_controller
          (ex_pod [''cluster'' \<mapsto> ''cluster''] [''pod-identity'' \<mapsto> ''old'']))) \<and>
   handlePodUpdate ex_controller (ex_pod [''cluster'' \<mapsto> ''cluster''] [''pod-identity'' \<mapsto> ''old'']) =
     ([Log Info ''processing pod'' [ZapString ''pod'' ''cluster-a-0''],
       Clusters_Get ''ns'' ''cluster'', Call_Identity, Call_IdentityJSON,
       Log Info ''pod ID''
         [ZapString ''pod'' ''cluster-a-0'',
          ZapAny ''id'' (ex_identity (ex_pod [''cluster'' \<mapsto> ''cluster''] [''pod-identity'' \<mapsto> ''old'']))],
       Log Warn ''pod ID mismatch''
         [ZapString ''pod'' ''cluster-a-0'', ZapString ''currentID'' ''old'',
          ZapString ''newID'' ''cluster-a-0'']],
      None)"
proof -
  let ?pod = "ex_pod [''cluster'' \<mapsto> ''cluster''] [''pod-identity'' \<mapsto> ''old'']"
  have a: "pod_Annotations ?pod (AnnotationKeyPodIdentity ex_controller) = Some ''old''"
    by (simp add: ex_pod_def ex_controller_def)
  have l: "pod_Labels ?pod (labels_Cluster ex_controller) = Some ''cluster''"
    by (simp add: ex_pod_def ex_controller_def)
  have g: "clusterLister_Get ex_controller (pod_Namespace ?pod) ''cluster'' = Inr ex_cluster"
    by (simp add: ex_pod_def ex_controller_def)
  have i: "podIDProvider_Identity ex_controller ?pod ex_cluster = Inr (ex_identity ?pod)"
    by (simp add: ex_controller_def)
  have j: "IdentityJSON ex_controller (ex_identity ?pod) = Inr ''cluster-a-0''"
    by (simp add: ex_controller_def ex_identity_def ex_pod_def)
  have n: "pod_Name ?pod = ''cluster-a-0''" "pod_Namespace ?pod = ''ns''"
    by (simp_all add: ex_pod_def)
  from annotated_pod_unchanged [OF a] l g i j n show ?thesis
    by simp
qed

section \<open>The stateful-set informer: properties\<close>

text \<open>
  C10 (resync suppression). An update event whose old and new objects carry the same
  resource version makes no call, so it enqueues nothing. When the versions differ the
  event is handled as the add handler handles the new object; if the new object's
  controller reference names an \<^verbatim>\<open>m3dbcluster\<close> that the lister finds, that
  cluster's key is enqueued.
\<close>

theorem resync_suppressed:
  "(sts_ResourceVersion newSts = sts_ResourceVersion oldSts \<longrightarrow>
      statefulSet_UpdateFunc c oldSts newSts = []) \<and>
   (sts_ResourceVersion newSts \<noteq> sts_ResourceVersion oldSts \<longrightarrow>
      statefulSet_UpdateFunc c oldSts newSts = statefulSet_AddFunc c (Object newSts) \<and>
      (\<forall>owner cluster.
         GetControllerOf newSts = Some owner \<longrightarrow> ref_Kind owner = ''m3dbcluster'' \<longrightarrow>
         clusterLister_Get c (sts_Namespace newSts) (ref_Name owner) = Inr cluster \<longrightarrow>
         statefulSet_UpdateFunc c oldSts newSts =
           [Log Info ''processing statefulset'' [ZapString ''name'' (sts_Name newSts)],
            Clusters_Get (sts_Namespace newSts) (ref_Name owner),
            AddRateLimited (MetaNamespaceKey (cl_Namespace cluster) (cl_Name cluster)),
            CounterInc ''enqueued_event'']))"
  by (simp add: statefulSet_UpdateFunc_def statefulSet_AddFunc_def handleStatefulSetUpdate_def
      resolveOwner_def enqueueCluster_def)

theorem resync_suppressed_witness:
  "statefulSet_UpdateFunc ex_controller (ex_generated ex_cluster ''a'' 2)
     (ex_generated ex_cluster ''a'' 2) = [] \<and>
   statefulSet_UpdateFunc ex_controller (ex_generated ex_cluster ''a'' 2)
     ((ex_generated ex_cluster ''a'' 2)\<lparr>sts_ResourceVersion := ''8''\<rparr>) =
     [Log Info ''processing statefulset'' [ZapString ''name'' ''cluster-a''],
      Clusters_Get ''ns'' ''cluster'',
      AddRateLimited ''ns/cluster'',
      CounterInc ''enqueued_event'']"
proof -
  let ?old = "ex_generated ex_cluster ''a'' 2"
  let ?new = "(ex_generated ex_cluster ''a'' 2)\<lparr>sts_ResourceVersion := ''8''\<rparr>"
  let ?owner = "\<lparr>ref_Kind = ''m3dbcluster'', ref_Name = ''cluster'', ref_UID = ''uid-1'',
          ref_Controller = Some True\<rparr>"
  have same: "sts_ResourceVersion ?old = sts_ResourceVersion ?old" by simp
  have differ: "sts_ResourceVersion ?new \<noteq> sts_ResourceVersion ?old"
    by (simp add: ex_generated_def)
  have owner: "GetControllerOf ?new = Some ?owner"
    by (simp add: GetControllerOf_def ex_generated_def ex_cluster_def)
  have get: "clusterLister_Get ex_controller (sts_Namespace ?new) (ref_Name ?owner) = Inr ex_cluster"
    by (simp add: ex_controller_def ex_generated_def ex_cluster_def)
  have key: "MetaNamespaceKey (cl_Namespace ex_cluster) (cl_Name ex_cluster) = ''ns/cluster''"
    by (simp add: MetaNamespaceKey_def ex_cluster_def)
  have nm: "sts_Name ?new = ''cluster-a''" "sts_Namespace ?new = ''ns''"
    by (simp_all add: ex_generated_def ex_cluster_def)
  from resync_suppressed [of ?old ?old ex_controller] same
  have 1: "statefulSet_UpdateFunc ex_controller ?old ?old = []" by blast
  from resync_suppressed [of ?new ?old ex_controller] differ
  have all: "\<forall>owner cluster.
         GetControllerOf ?new = Some owner \<longrightarrow> ref_Kind owner = ''m3dbcluster'' \<longrightarrow>
         clusterLister_Get ex_controller (sts_Namespace ?new) (ref_Name owner) = Inr cluster \<longrightarrow>
         statefulSet_UpdateFunc ex_controller ?old ?new =
           [Log Info ''processing statefulset'' [ZapString ''name'' (sts_Name ?new)],
            Clusters_Get (sts_Namespace ?new) (ref_Name owner),
            AddRateLimited (MetaNamespaceKey (cl_Namespace cluster) (cl_Name cluster)),
            CounterInc ''enqueued_event'']"
    by blast
  have 2: "statefulSet_UpdateFunc ex_controller ?old ?new =
           [Log Info ''processing statefulset'' [ZapString ''name'' (sts_Name ?new)],
            Clusters_Get (sts_Namespace ?new) (ref_Name ?owner),
            AddRateLimited (MetaNamespaceKey (cl_Namespace ex_cluster) (cl_Name ex_cluster)),
            CounterInc ''enqueued_event'']"
    using all [rule_format, OF owner _ get] by simp
  from 1 2 key nm show ?thesis by simp
qed

end
